theory Spec2Isabelle
  imports Main
begin

section \<open>JavaScript values\<close>

text \<open>
  Configuration values and event parameters reach the app as JSON, and a property that
  is absent reads as \<open>undefined\<close>. A string is the list of its code units, one \<open>char\<close>
  for each, so the strings here are those whose code units are below 256; an object is
  an association list of its own properties. The source never computes on numbers, it only
  interpolates them into a template literal, so the number type is left open as \<open>'n\<close> and
  \<open>Number::toString\<close> is the parameter \<open>ns\<close> of everything that prints a value.
\<close>

datatype 'n jsval =
    JUndefined
  | JNull
  | JBool bool
  | JNum 'n
  | JStr string
  | JArr "'n jsval list"
  | JObj "(string \<times> 'n jsval) list"

type_synonym 'n jsobj = "(string \<times> 'n jsval) list"

text \<open>\<open>obj.key\<close>: the value of the property, \<open>undefined\<close> when the object has none.\<close>

definition get_prop :: "'n jsobj \<Rightarrow> string \<Rightarrow> 'n jsval" where
  "get_prop obj k = (case map_of obj k of None \<Rightarrow> JUndefined | Some v \<Rightarrow> v)"

text \<open>\<open>Array.prototype.join\<close> with the separator \<open>","\<close>, on the elements already printed.\<close>

fun join_comma :: "string list \<Rightarrow> string" where
  "join_comma [] = []"
| "join_comma [s] = s"
| "join_comma (s # t # ss) = s @ '','' @ join_comma (t # ss)"

text \<open>
  Code signals failure by throwing; the TypeError of the language and the errors of the
  contract are values here. The string of an error names the offending field or output.
\<close>

datatype error =
    TypeError
  | ConfigurationError string
  | ValidationError string
  | InputValidationError string
  | EmissionContractViolation string
  | UnknownTarget string

text \<open>
  The abstract operation \<open>ToString\<close> that a template literal applies to each substitution.
  An object is first converted to a primitive: its \<open>toString\<close> is called when that is a
  function, then its \<open>valueOf\<close>. A JSON object holds no function, so an own property
  \<open>toString\<close>, whatever its value, hides \<open>Object.prototype.toString\<close>; \<open>valueOf\<close>, own or
  inherited, then gives no primitive either, and the conversion throws a TypeError.
  Without an own \<open>toString\<close> the object prints as \<open>[object Object]\<close>. An array prints as its
  elements joined by commas, from the first to the last, where \<open>undefined\<close> and \<open>null\<close>
  elements print as the empty string; an element that throws makes the array throw.
\<close>

fun to_string :: "('n \<Rightarrow> string) \<Rightarrow> 'n jsval \<Rightarrow> error + string"
  and to_strings :: "('n \<Rightarrow> string) \<Rightarrow> 'n jsval list \<Rightarrow> error + string list" where
  "to_string ns JUndefined = Inr ''undefined''"
| "to_string ns JNull = Inr ''null''"
| "to_string ns (JBool b) = Inr (if b then ''true'' else ''false'')"
| "to_string ns (JNum n) = Inr (ns n)"
| "to_string ns (JStr s) = Inr s"
| "to_string ns (JArr vs) =
     (case to_strings ns vs of Inl e \<Rightarrow> Inl e | Inr ss \<Rightarrow> Inr (join_comma ss))"
| "to_string ns (JObj kvs) =
     (if map_of kvs ''toString'' = None then Inr ''[object Object]'' else Inl TypeError)"
| "to_strings ns [] = Inr []"
| "to_strings ns (v # vs) =
     (case (if v = JUndefined \<or> v = JNull then Inr [] else to_string ns v) of
        Inl e \<Rightarrow> Inl e
      | Inr s \<Rightarrow> (case to_strings ns vs of Inl e \<Rightarrow> Inl e | Inr ss \<Rightarrow> Inr (s # ss)))"

text \<open>
  \<open>s.substring(a, b)\<close> for non-negative integer arguments: both are clamped to the length
  and swapped when \<open>a > b\<close>.
\<close>

definition substring :: "string \<Rightarrow> nat \<Rightarrow> nat \<Rightarrow> string" where
  "substring s a b = take (max a b - min a b) (drop (min a b) s)"

text \<open>\<open>s.startsWith(p)\<close> and \<open>s.includes(p)\<close>, for stating what a string contains.\<close>

fun starts_with :: "string \<Rightarrow> string \<Rightarrow> bool" where
  "starts_with s [] = True"
| "starts_with [] (c # p) = False"
| "starts_with (d # s) (c # p) = (d = c \<and> starts_with s p)"

fun str_includes :: "string \<Rightarrow> string \<Rightarrow> bool" where
  "str_includes [] p = (p = [])"
| "str_includes (d # s) p = (starts_with (d # s) p \<or> str_includes s p)"

section \<open>Outcomes, schemas and the installation's state\<close>

text \<open>A handler invocation completes, or it fails with the error that was thrown.\<close>

datatype outcome = Completed | Failed error

text \<open>
  The shapes the source declares: \<open>type: "string"\<close> on a configuration or input field, and
  on an output \<open>{type: "object", properties: {...}, required: [...]}\<close>.
\<close>

datatype json_schema =
    TString
  | TNumber
  | TBoolean
  | TObject "(string \<times> json_schema) list" "string list"

record 'n config_field =
  cf_name :: string
  cf_description :: string
  cf_type :: json_schema
  cf_required :: bool
  cf_sensitive :: "bool option"
  cf_default :: "'n jsval option"

record output_def =
  out_name :: string
  out_description :: string
  out_default :: bool
  out_type :: json_schema

text \<open>
  What one installation holds while it runs: the resolved configuration object, which
  every invocation sees as \<open>input.app.config\<close>, and the events emitted so far, each with
  the output it went to.
\<close>

record 'n world =
  w_config :: "'n jsobj"
  w_emitted :: "(string \<times> 'n jsval) list"

text \<open>
  \<open>events.emit(payload)\<close> comes from the SDK. A handler receives it as its first argument;
  the optional output key is \<open>None\<close> when the call names no output.
\<close>

type_synonym 'n emit_cap = "string option \<Rightarrow> 'n jsval \<Rightarrow> 'n world \<Rightarrow> outcome \<times> 'n world"

type_synonym 'n handler = "'n emit_cap \<Rightarrow> 'n jsobj \<Rightarrow> 'n world \<Rightarrow> outcome \<times> 'n world"

record 'n input_def =
  in_config :: "(string \<times> 'n config_field) list"
  in_onEvent :: "'n handler"

record 'n app_block =
  blk_name :: string
  blk_description :: string
  blk_category :: string
  blk_inputs :: "(string \<times> 'n input_def) list"
  blk_outputs :: "(string \<times> output_def) list"

record 'n app_def =
  app_name :: string
  app_installationInstructions :: string
  app_blocks :: "(string \<times> 'n app_block) list"
  app_config :: "(string \<times> 'n config_field) list"

section \<open>The example block (blocks/exampleBlock.ts)\<close>

text \<open>
  \<open>apiKey.substring(0, 8)\<close>: reading \<open>substring\<close> off \<open>undefined\<close> or \<open>null\<close> throws a
  TypeError, and on any other value that is not a string the property is not a function,
  so the call throws a TypeError as well.
\<close>

definition call_substring :: "'n jsval \<Rightarrow> nat \<Rightarrow> nat \<Rightarrow> error + string" where
  "call_substring v a b = (case v of JStr s \<Rightarrow> Inr (substring s a b) | _ \<Rightarrow> Inl TypeError)"

text \<open>
  The handler of the default input. The template literal evaluates its substitutions from
  left to right and converts each to a string as soon as it is evaluated: \<open>message\<close>, then
  \<open>baseUrl\<close>, then the result of the \<open>substring\<close> call. Each of the three steps may throw,
  and all of them run before \<open>emit\<close> is reached; \<open>await events.emit(...)\<close> passes a failure
  of \<open>emit\<close> on.
\<close>

definition onEvent :: "('n \<Rightarrow> string) \<Rightarrow> 'n handler" where
  "onEvent ns emit inputConfig w =
     (let message = get_prop inputConfig ''message'';
          apiKey = get_prop (w_config w) ''apiKey'';
          baseUrl = get_prop (w_config w) ''baseUrl''
      in case to_string ns message of
           Inl e \<Rightarrow> (Failed e, w)
         | Inr messageStr \<Rightarrow>
             (case to_string ns baseUrl of
                Inl e \<Rightarrow> (Failed e, w)
              | Inr baseUrlStr \<Rightarrow>
                  (case call_substring apiKey 0 8 of
                     Inl e \<Rightarrow> (Failed e, w)
                   | Inr key8 \<Rightarrow>
                       (let processedMessage =
                              ''Processed: '' @ messageStr @ '' (using '' @ baseUrlStr
                                @ '' with API key: '' @ key8 @ ''...)''
                        in emit None
                             (JObj [(''message'', JStr processedMessage),
                                    (''originalMessage'', message)]) w))))"

definition exampleBlock_outputs :: "(string \<times> output_def) list" where
  "exampleBlock_outputs =
     [(''default'',
       \<lparr>out_name = ''Result'',
        out_description = ''The processed message result'',
        out_default = True,
        out_type = TObject [(''message'', TString), (''originalMessage'', TString)]
                     [''message'', ''originalMessage'']\<rparr>)]"

definition exampleBlock :: "('n \<Rightarrow> string) \<Rightarrow> 'n app_block" where
  "exampleBlock ns =
     \<lparr>blk_name = ''Example Action'',
      blk_description = ''A simple example block that processes text input'',
      blk_category = ''Example'',
      blk_inputs =
        [(''default'',
          \<lparr>in_config =
             [(''message'',
               \<lparr>cf_name = ''Message'',
                cf_description = ''The text message to process'',
                cf_type = TString,
                cf_required = True,
                cf_sensitive = None,
                cf_default = None\<rparr>)],
           in_onEvent = onEvent ns\<rparr>)],
      blk_outputs = exampleBlock_outputs\<rparr>"

section \<open>The block registry (blocks/index.ts) and the app (main.ts)\<close>

definition blocks :: "('n \<Rightarrow> string) \<Rightarrow> (string \<times> 'n app_block) list" where
  "blocks ns = [(''example'', exampleBlock ns)]"

definition app :: "('n \<Rightarrow> string) \<Rightarrow> 'n app_def" where
  "app ns =
     \<lparr>app_name = ''{{APP_NAME}}'',
      app_installationInstructions =
        ''{{APP_DESCRIPTION}}'' @ [CHR 0x0A, CHR 0x0A] @ ''To install:'' @ [CHR 0x0A]
          @ ''1. Add your API key'' @ [CHR 0x0A] @ ''2. Configure the base URL if needed''
          @ [CHR 0x0A] @ ''3. Start using the blocks in your flows'',
      app_blocks = blocks ns,
      app_config =
        [(''apiKey'',
          \<lparr>cf_name = ''API Key'',
           cf_description = ''Your service API key'',
           cf_type = TString,
           cf_required = True,
           cf_sensitive = Some True,
           cf_default = None\<rparr>),
         (''baseUrl'',
          \<lparr>cf_name = ''Base URL'',
           cf_description = ''API base URL'',
           cf_type = TString,
           cf_required = False,
           cf_sensitive = None,
           cf_default = Some (JStr ''https://api.example.com'')\<rparr>)]\<rparr>"

section \<open>The host's side of the contract\<close>

text \<open>
  The source imports \<open>defineApp\<close> and \<open>events\<close> from the SDK and holds none of the runtime
  that resolves the configuration, validates and dispatches events and carries out
  \<open>emit\<close>. The definitions of this section follow the specification's sections 4.1 to 4.3
  and 7; the schemas they are applied to are the ones the source declares.
\<close>

text \<open>
  Modelled from the spec: the check of a value against a JSON-Schema-like shape (missing:
  the SDK's schema validation). A string, number or boolean shape admits the values of
  that type; an object shape admits an object that has every required property and
  whose declared properties, where present, have their declared shapes.
\<close>

fun conforms :: "json_schema \<Rightarrow> 'n jsval \<Rightarrow> bool"
  and conforms_props :: "(string \<times> json_schema) list \<Rightarrow> 'n jsobj \<Rightarrow> bool" where
  "conforms TString v = (case v of JStr s \<Rightarrow> True | _ \<Rightarrow> False)"
| "conforms TNumber v = (case v of JNum n \<Rightarrow> True | _ \<Rightarrow> False)"
| "conforms TBoolean v = (case v of JBool b \<Rightarrow> True | _ \<Rightarrow> False)"
| "conforms (TObject props req) v =
     (case v of
        JObj kvs \<Rightarrow> list_all (\<lambda>k. map_of kvs k \<noteq> None) req \<and> conforms_props props kvs
      | _ \<Rightarrow> False)"
| "conforms_props [] kvs = True"
| "conforms_props ((k, s) # ps) kvs =
     ((case map_of kvs k of None \<Rightarrow> True | Some x \<Rightarrow> conforms s x) \<and> conforms_props ps kvs)"

text \<open>
  Modelled from the spec: the resolution of one configuration field, section 4.1
  (missing: the host's resolution of installer-supplied values). A field the installer
  left out resolves to its declared default; left out with no default it is a
  configuration error when the field is required, and stays unset otherwise. A required
  field without a default must also be non-empty. A supplied value of the wrong type is
  a validation error naming the field.
\<close>

definition resolve_field :: "'n jsobj \<Rightarrow> string \<times> 'n config_field \<Rightarrow> error + 'n jsobj" where
  "resolve_field raw kf =
     (case kf of (k, f) \<Rightarrow>
        (case map_of raw k of
           None \<Rightarrow>
             (case cf_default f of
                Some d \<Rightarrow> Inr [(k, d)]
              | None \<Rightarrow> if cf_required f then Inl (ConfigurationError k) else Inr [])
         | Some v \<Rightarrow>
             if cf_required f \<and> cf_default f = None \<and> v = JStr [] then Inl (ConfigurationError k)
             else if conforms (cf_type f) v then Inr [(k, v)]
             else Inl (ValidationError k)))"

text \<open>
  Modelled from the spec: configuration resolution, section 4.1 (missing: the same part
  of the host). Every field of the schema is resolved against the raw values; the first
  failing field, in the order of the schema, decides the error.
\<close>

fun resolve_config :: "(string \<times> 'n config_field) list \<Rightarrow> 'n jsobj \<Rightarrow> error + 'n jsobj" where
  "resolve_config [] raw = Inr []"
| "resolve_config (kf # fs) raw =
     (case resolve_field raw kf of
        Inl e \<Rightarrow> Inl e
      | Inr kv \<Rightarrow> (case resolve_config fs raw of Inl e \<Rightarrow> Inl e | Inr cfg \<Rightarrow> Inr (kv @ cfg)))"

text \<open>
  Modelled from the spec: installation (missing: the host's start of an app). The app
  starts only with a resolved configuration; a configuration error is fatal to startup.
\<close>

definition install :: "'n app_def \<Rightarrow> 'n jsobj \<Rightarrow> error + 'n world" where
  "install a raw =
     (case resolve_config (app_config a) raw of
        Inl e \<Rightarrow> Inl e
      | Inr cfg \<Rightarrow> Inr \<lparr>w_config = cfg, w_emitted = []\<rparr>)"

text \<open>
  Modelled from the spec: the check of one declared parameter of an input, section 4.2
  (missing: the host's input validation). A required parameter that is missing, or a
  parameter of the wrong type, is an input validation error naming it.
\<close>

definition check_param :: "'n jsobj \<Rightarrow> string \<times> 'n config_field \<Rightarrow> error option" where
  "check_param params kf =
     (case kf of (k, f) \<Rightarrow>
        (case map_of params k of
           None \<Rightarrow> if cf_required f then Some (InputValidationError k) else None
         | Some v \<Rightarrow> if conforms (cf_type f) v then None else Some (InputValidationError k)))"

text \<open>
  Modelled from the spec: validation of an event's parameters against the input's
  declared shape, section 4.2 (missing: the same part of the host). The first failing
  parameter, in the order of the shape, decides the error.
\<close>

fun validate_params :: "(string \<times> 'n config_field) list \<Rightarrow> 'n jsobj \<Rightarrow> error option" where
  "validate_params [] params = None"
| "validate_params (kf # fs) params =
     (case check_param params kf of Some e \<Rightarrow> Some e | None \<Rightarrow> validate_params fs params)"

text \<open>
  Modelled from the spec: the default route of a block, section 3 (missing: the SDK's
  choice of an output for \<open>emit\<close> without an output key). It is the first output that
  carries the default flag.
\<close>

definition default_output :: "(string \<times> output_def) list \<Rightarrow> string option" where
  "default_output outs =
     (case filter (\<lambda>kd. out_default (snd kd)) outs of [] \<Rightarrow> None | kd # _ \<Rightarrow> Some (fst kd))"

text \<open>
  Modelled from the spec: event emission, sections 4.3 and 7 (missing: the SDK's
  \<open>events.emit\<close>). A call that names no output goes to the default output. Emitting on an
  output the block does not declare, or a payload that does not have the output's
  declared shape, is an emission contract violation and throws; otherwise the event is
  recorded with its output.
\<close>

definition events_emit :: "(string \<times> output_def) list \<Rightarrow> 'n emit_cap" where
  "events_emit outs key payload w =
     (case (case key of None \<Rightarrow> default_output outs | Some k \<Rightarrow> Some k) of
        None \<Rightarrow> (Failed (EmissionContractViolation []), w)
      | Some k \<Rightarrow>
          (case map_of outs k of
             None \<Rightarrow> (Failed (EmissionContractViolation k), w)
           | Some d \<Rightarrow>
               if conforms (out_type d) payload
               then (Completed, w\<lparr>w_emitted := w_emitted w @ [(k, payload)]\<rparr>)
               else (Failed (EmissionContractViolation k), w)))"

text \<open>
  Modelled from the spec: block dispatch, sections 4.2 and 7 (missing: the host's
  dispatch layer). The event's parameters are validated before the handler is invoked;
  the handler runs with an emit capability bound to its block; when it throws, the
  invocation has failed and none of its output counts. An event for a block or an input
  the app does not have is refused as an unknown target.
\<close>

definition dispatch ::
  "(string \<times> 'n app_block) list \<Rightarrow> string \<Rightarrow> string \<Rightarrow> 'n jsobj \<Rightarrow> 'n world \<Rightarrow> outcome \<times> 'n world" where
  "dispatch bs blockId inputId params w =
     (case map_of bs blockId of
        None \<Rightarrow> (Failed (UnknownTarget blockId), w)
      | Some b \<Rightarrow>
          (case map_of (blk_inputs b) inputId of
             None \<Rightarrow> (Failed (UnknownTarget inputId), w)
           | Some i \<Rightarrow>
               (case validate_params (in_config i) params of
                  Some e \<Rightarrow> (Failed e, w)
                | None \<Rightarrow>
                    (case in_onEvent i (events_emit (blk_outputs b)) params w of
                       (Completed, w') \<Rightarrow> (Completed, w')
                     | (Failed e, w') \<Rightarrow> (Failed e, w'\<lparr>w_emitted := w_emitted w\<rparr>)))))"

text \<open>
  Modelled from the spec: the delivery of events to a running installation, section 4.2
  (missing: the host's event loop). Events, each a block identifier, an input identifier
  and the parameters, are dispatched one after the other; a failed invocation does not
  stop the ones after it.
\<close>

fun deliver ::
  "(string \<times> 'n app_block) list \<Rightarrow> (string \<times> string \<times> 'n jsobj) list \<Rightarrow> 'n world
     \<Rightarrow> outcome list \<times> 'n world" where
  "deliver bs [] w = ([], w)"
| "deliver bs (ev # evs) w =
     (case ev of (blockId, inputId, params) \<Rightarrow>
        (case dispatch bs blockId inputId params w of
           (r, w') \<Rightarrow> (case deliver bs evs w' of (rs, w'') \<Rightarrow> (r # rs, w''))))"

text \<open>
  Modelled from the spec: the life of an installation, sections 4.1 and 7 (missing: the
  host's start of an app and its event loop). Nothing is dispatched to an app that did
  not start.
\<close>

definition run ::
  "'n app_def \<Rightarrow> 'n jsobj \<Rightarrow> (string \<times> string \<times> 'n jsobj) list \<Rightarrow> error + outcome list \<times> 'n world" where
  "run a raw evs =
     (case install a raw of Inl e \<Rightarrow> Inl e | Inr w \<Rightarrow> Inr (deliver (app_blocks a) evs w))"

section \<open>Facts about the string functions and the handler\<close>

lemma starts_with_iff: "starts_with s p \<longleftrightarrow> (\<exists>b. s = p @ b)"
  by (induction s p rule: starts_with.induct) auto

lemma str_includes_iff: "str_includes s p \<longleftrightarrow> (\<exists>a b. s = a @ p @ b)"
proof (induction s)
  case Nil
  then show ?case by auto
next
  case (Cons d s)
  show ?case
  proof
    assume "str_includes (d # s) p"
    then consider "starts_with (d # s) p" | "str_includes s p" by auto
    then show "\<exists>a b. d # s = a @ p @ b"
    proof cases
      case 1
      then obtain b where "d # s = p @ b" by (auto simp: starts_with_iff)
      then have "d # s = [] @ p @ b" by simp
      then show ?thesis by blast
    next
      case 2
      then obtain a b where "s = a @ p @ b" using Cons.IH by auto
      then have "d # s = (d # a) @ p @ b" by simp
      then show ?thesis by blast
    qed
  next
    assume "\<exists>a b. d # s = a @ p @ b"
    then obtain a b where ab: "d # s = a @ p @ b" by blast
    show "str_includes (d # s) p"
    proof (cases a)
      case Nil
      with ab have "starts_with (d # s) p" by (auto simp: starts_with_iff)
      then show ?thesis by simp
    next
      case (Cons x a')
      with ab have "s = a' @ p @ b" by simp
      then have "str_includes s p" using Cons.IH by blast
      then show ?thesis by simp
    qed
  qed
qed

lemma to_string_error:
  "to_string ns v = Inl e \<Longrightarrow> e = TypeError"
  "to_strings ns vs = Inl e \<Longrightarrow> e = TypeError"
  by (induction ns v and ns vs arbitrary: e and e rule: to_string_to_strings.induct)
     (auto split: sum.splits if_splits)

lemma onEvent_string:
  "get_prop (w_config w) ''apiKey'' = JStr k \<Longrightarrow>
   to_string ns (get_prop params ''message'') = Inr ms \<Longrightarrow>
   to_string ns (get_prop (w_config w) ''baseUrl'') = Inr bs \<Longrightarrow>
   onEvent ns em params w =
     em None
       (JObj [(''message'',
               JStr (''Processed: '' @ ms @ '' (using '' @ bs @ '' with API key: ''
                 @ take 8 k @ ''...)'')),
              (''originalMessage'', get_prop params ''message'')]) w"
  by (simp add: onEvent_def call_substring_def substring_def Let_def)

lemma onEvent_not_string:
  "(\<And>s. get_prop (w_config w) ''apiKey'' \<noteq> JStr s) \<Longrightarrow> onEvent ns em params w = (Failed TypeError, w)"
  by (cases "get_prop (w_config w) ''apiKey''")
     (auto simp: onEvent_def call_substring_def Let_def split: sum.splits dest: to_string_error(1))

lemma onEvent_unprintable:
  "to_string ns (get_prop params ''message'') = Inl e
     \<or> to_string ns (get_prop (w_config w) ''baseUrl'') = Inl e \<Longrightarrow>
   onEvent ns em params w = (Failed TypeError, w)"
  by (auto simp: onEvent_def Let_def split: sum.splits dest: to_string_error(1))

lemma events_emit_config: "w_config (snd (events_emit outs key p w)) = w_config w"
  by (simp add: events_emit_def split: option.splits)

lemma onEvent_config:
  "(\<And>key p v. w_config (snd (em key p v)) = w_config v) \<Longrightarrow>
   w_config (snd (onEvent ns em params w)) = w_config w"
  by (simp add: onEvent_def Let_def split: sum.splits)

lemma dispatch_config: "w_config (snd (dispatch (blocks ns) b i params w)) = w_config w"
proof -
  have h: "w_config (snd (onEvent ns (events_emit exampleBlock_outputs) params w)) = w_config w"
    by (rule onEvent_config) (rule events_emit_config)
  show ?thesis
    using h
    by (auto simp: dispatch_def blocks_def exampleBlock_def split: option.splits prod.splits outcome.splits)
qed

lemma resolve_field_other:
  "resolve_field raw (k', f') = Inr kv \<Longrightarrow> k \<noteq> k' \<Longrightarrow> map_of (kv @ rest) k = map_of rest k"
  by (auto simp: resolve_field_def split: option.splits if_splits)

lemma dispatch_invalid:
  "map_of bs b = Some blk \<Longrightarrow> map_of (blk_inputs blk) i = Some idef \<Longrightarrow>
   validate_params (in_config idef) params = Some e \<Longrightarrow>
   dispatch bs b i params w = (Failed e, w)"
  by (simp add: dispatch_def)

lemma short_key_in_payload:
  assumes "get_prop (w_config w) ''apiKey'' = JStr k" and "length k \<le> 8"
    and "to_string ns (get_prop params ''message'') = Inr ms"
    and "to_string ns (get_prop (w_config w) ''baseUrl'') = Inr bs"
  shows "\<exists>m. (\<forall>em. onEvent ns em params w =
                 em None (JObj [(''message'', JStr m), (''originalMessage'', get_prop params ''message'')]) w)
             \<and> str_includes m k"
proof -
  define a where "a = ''Processed: '' @ ms @ '' (using '' @ bs @ '' with API key: ''"
  define m where "m = a @ k @ ''...)''"
  have "\<forall>em. onEvent ns em params w =
          em None (JObj [(''message'', JStr m), (''originalMessage'', get_prop params ''message'')]) w"
    using onEvent_string [OF assms(1,3,4)] assms(2) by (simp add: m_def a_def)
  moreover have "str_includes m k"
    unfolding str_includes_iff m_def by blast
  ultimately show ?thesis by blast
qed

section \<open>The end-to-end scenario\<close>

text \<open>
  Claim C1. The app is installed with \<open>apiKey = "secret123"\<close> and no \<open>baseUrl\<close>, so that
  \<open>baseUrl\<close> resolves to \<open>"https://api.example.com"\<close>. An event with \<open>message = "hi"\<close> on
  the default input of the example block completes and leaves exactly one event, on the
  default output, whose \<open>originalMessage\<close> is \<open>"hi"\<close> and whose \<open>message\<close> contains
  \<open>"Processed: hi"\<close>.
\<close>

theorem example_end_to_end:
  "run (app ns) [(''apiKey'', JStr ''secret123'')]
       [(''example'', ''default'', [(''message'', JStr ''hi'')])]
     = Inr ([Completed],
            \<lparr>w_config = [(''apiKey'', JStr ''secret123''),
                         (''baseUrl'', JStr ''https://api.example.com'')],
             w_emitted =
               [(''default'',
                 JObj [(''message'',
                        JStr ''Processed: hi (using https://api.example.com with API key: secret12...)''),
                       (''originalMessage'', JStr ''hi'')])]\<rparr>)
   \<and> str_includes ''Processed: hi (using https://api.example.com with API key: secret12...)''
         ''Processed: hi''"
  by (simp add: run_def install_def app_def blocks_def exampleBlock_def exampleBlock_outputs_def
      resolve_field_def dispatch_def check_param_def onEvent_def get_prop_def call_substring_def
      substring_def events_emit_def default_output_def)

section \<open>The sensitive field\<close>

text \<open>
  Claim C2. The claim is that the full \<open>apiKey\<close> is never contained in an emitted payload.
  The handler prints the first eight code units of the key, followed by three dots. With
  the key \<open>"abc"\<close> the payload it hands to \<open>emit\<close>, whatever \<open>emit\<close> is, holds the whole key,
  and the installed app emits it on the default output.
\<close>

theorem short_apiKey_echoed_in_full:
  "onEvent ns em [(''message'', JStr ''hi'')]
       \<lparr>w_config = [(''apiKey'', JStr ''abc''), (''baseUrl'', JStr ''https://api.example.com'')],
        w_emitted = []\<rparr>
     = em None
         (JObj [(''message'', JStr ''Processed: hi (using https://api.example.com with API key: abc...)''),
                (''originalMessage'', JStr ''hi'')])
         \<lparr>w_config = [(''apiKey'', JStr ''abc''), (''baseUrl'', JStr ''https://api.example.com'')],
          w_emitted = []\<rparr>
   \<and> str_includes ''Processed: hi (using https://api.example.com with API key: abc...)'' ''abc''
   \<and> run (app ns) [(''apiKey'', JStr ''abc'')]
         [(''example'', ''default'', [(''message'', JStr ''hi'')])]
       = Inr ([Completed],
              \<lparr>w_config = [(''apiKey'', JStr ''abc''),
                           (''baseUrl'', JStr ''https://api.example.com'')],
               w_emitted =
                 [(''default'',
                   JObj [(''message'',
                          JStr ''Processed: hi (using https://api.example.com with API key: abc...)''),
                         (''originalMessage'', JStr ''hi'')])]\<rparr>)"
  by (simp add: run_def install_def app_def blocks_def exampleBlock_def exampleBlock_outputs_def
      resolve_field_def dispatch_def check_param_def onEvent_def get_prop_def call_substring_def
      substring_def events_emit_def default_output_def)

section \<open>Input validation\<close>

text \<open>
  Claim C3. An event for the default input of the example block whose parameters have no
  \<open>message\<close> is rejected with an input validation error naming \<open>message\<close>, and the
  installation's state is left as it was: the handler has not run and nothing is emitted.
\<close>

theorem missing_message_rejected:
  assumes "map_of params ''message'' = None"
  shows "dispatch (blocks ns) ''example'' ''default'' params w
           = (Failed (InputValidationError ''message''), w)"
proof -
  let ?idef = "\<lparr>in_config = [(''message'',
                   \<lparr>cf_name = ''Message'', cf_description = ''The text message to process'',
                    cf_type = TString, cf_required = True, cf_sensitive = None,
                    cf_default = None\<rparr>)],
                in_onEvent = onEvent ns\<rparr>"
  have "validate_params (in_config ?idef) params = Some (InputValidationError ''message'')"
    using assms by (simp add: check_param_def)
  moreover have "map_of (blocks ns) ''example'' = Some (exampleBlock ns)"
    by (simp add: blocks_def)
  moreover have "map_of (blk_inputs (exampleBlock ns)) ''default'' = Some ?idef"
    by (simp add: exampleBlock_def)
  ultimately show ?thesis
    by (simp only: dispatch_invalid)
qed

theorem missing_message_rejected_witness:
  "map_of ([] :: nat jsobj) ''message'' = None
   \<and> dispatch (blocks (\<lambda>n::nat. ''0'')) ''example'' ''default'' []
         \<lparr>w_config = [(''apiKey'', JStr ''secret123''),
                      (''baseUrl'', JStr ''https://api.example.com'')],
          w_emitted = []\<rparr>
       = (Failed (InputValidationError ''message''),
          \<lparr>w_config = [(''apiKey'', JStr ''secret123''),
                       (''baseUrl'', JStr ''https://api.example.com'')],
           w_emitted = []\<rparr>)"
proof -
  have h: "map_of ([] :: nat jsobj) ''message'' = None" by simp
  from h missing_message_rejected [OF h] show ?thesis by (rule conjI)
qed

section \<open>Configuration resolution\<close>

text \<open>
  Claim C4. When the installer's values leave out a field of the app's configuration that
  is required and has no default (\<open>apiKey\<close> is the only one), installing the app is a
  configuration error naming that field; the app does not start, and no event is
  dispatched to a handler.
\<close>

theorem missing_required_config_is_fatal:
  assumes "(k, f) \<in> set (app_config (app ns))" and "cf_required f" and "cf_default f = None"
    and "map_of raw k = None"
  shows "install (app ns) raw = Inl (ConfigurationError k)
         \<and> run (app ns) raw evs = Inl (ConfigurationError k)"
proof -
  from assms(1,3) have "k = ''apiKey''"
    by (auto simp: app_def)
  with assms(4) have "install (app ns) raw = Inl (ConfigurationError k)"
    by (simp add: install_def app_def resolve_field_def)
  then show ?thesis by (simp add: run_def)
qed

theorem missing_required_config_is_fatal_witness:
  "(''apiKey'', \<lparr>cf_name = ''API Key'', cf_description = ''Your service API key'',
       cf_type = TString, cf_required = True, cf_sensitive = Some True,
       cf_default = (None :: nat jsval option)\<rparr>) \<in> set (app_config (app (\<lambda>n::nat. ''0'')))
   \<and> map_of ([(''baseUrl'', JStr ''https://example.org'')] :: nat jsobj) ''apiKey'' = None
   \<and> install (app (\<lambda>n::nat. ''0'')) [(''baseUrl'', JStr ''https://example.org'')]
       = Inl (ConfigurationError ''apiKey'')
   \<and> run (app (\<lambda>n::nat. ''0'')) [(''baseUrl'', JStr ''https://example.org'')]
         [(''example'', ''default'', [(''message'', JStr ''hi'')])]
       = Inl (ConfigurationError ''apiKey'')"
proof -
  let ?f = "\<lparr>cf_name = ''API Key'', cf_description = ''Your service API key'',
       cf_type = TString, cf_required = True, cf_sensitive = Some True,
       cf_default = (None :: nat jsval option)\<rparr>"
  let ?raw = "[(''baseUrl'', JStr ''https://example.org'')] :: nat jsobj"
  have m: "(''apiKey'', ?f) \<in> set (app_config (app (\<lambda>n::nat. ''0'')))"
    by (simp add: app_def)
  have r: "map_of ?raw ''apiKey'' = None" by simp
  have "cf_required ?f" and "cf_default ?f = None" by simp_all
  from missing_required_config_is_fatal [OF m this r,
      of "[(''example'', ''default'', [(''message'', JStr ''hi'')])]"] m r
  show ?thesis by simp
qed

text \<open>
  Claim C5. A field of a configuration schema that declares a default and that the
  installer's values leave out resolves to exactly that default, and two resolutions of
  the same values give the same configuration. In the app's schema the field is
  \<open>baseUrl\<close>, with the default \<open>"https://api.example.com"\<close>.
\<close>

theorem omitted_field_resolves_to_default:
  assumes "map_of fs k = Some f" and "cf_default f = Some d" and "map_of raw k = None"
    and "resolve_config fs raw = Inr cfg" and "resolve_config fs raw = Inr cfg'"
  shows "map_of cfg k = Some d \<and> cfg' = cfg"
proof
  from assms(4,5) show "cfg' = cfg" by simp
  from assms(1,4) show "map_of cfg k = Some d"
  proof (induction fs arbitrary: cfg)
    case Nil
    then show ?case by simp
  next
    case (Cons kf fs)
    obtain k' f' where kf: "kf = (k', f')" by (cases kf)
    from Cons.prems(2) kf obtain kv rest where
      kv: "resolve_field raw (k', f') = Inr kv" and rest: "resolve_config fs raw = Inr rest"
      and cfg: "cfg = kv @ rest"
      by (auto split: sum.splits)
    show ?case
    proof (cases "k' = k")
      case True
      with Cons.prems(1) kf have "f' = f" by simp
      with True kv assms(2,3) have "kv = [(k, d)]" by (simp add: resolve_field_def)
      with cfg show ?thesis by simp
    next
      case False
      with Cons.prems(1) kf have "map_of fs k = Some f" by simp
      then have "map_of rest k = Some d" using rest by (rule Cons.IH)
      moreover from False have "k \<noteq> k'" by (rule not_sym)
      with kv have "map_of (kv @ rest) k = map_of rest k" by (rule resolve_field_other)
      ultimately show ?thesis using cfg by simp
    qed
  qed
qed

theorem omitted_field_resolves_to_default_witness:
  "map_of (app_config (app (\<lambda>n::nat. ''0''))) ''baseUrl''
     = Some \<lparr>cf_name = ''Base URL'', cf_description = ''API base URL'', cf_type = TString,
             cf_required = False, cf_sensitive = None,
             cf_default = Some (JStr ''https://api.example.com'')\<rparr>
   \<and> map_of ([(''apiKey'', JStr ''secret123'')] :: nat jsobj) ''baseUrl'' = None
   \<and> resolve_config (app_config (app (\<lambda>n::nat. ''0''))) [(''apiKey'', JStr ''secret123'')]
       = Inr [(''apiKey'', JStr ''secret123''), (''baseUrl'', JStr ''https://api.example.com'')]
   \<and> map_of ([(''apiKey'', JStr ''secret123''), (''baseUrl'', JStr ''https://api.example.com'')] :: nat jsobj)
         ''baseUrl'' = Some (JStr ''https://api.example.com'')"
proof -
  let ?f = "\<lparr>cf_name = ''Base URL'', cf_description = ''API base URL'', cf_type = TString,
             cf_required = False, cf_sensitive = None,
             cf_default = Some (JStr ''https://api.example.com'' :: nat jsval)\<rparr>"
  let ?raw = "[(''apiKey'', JStr ''secret123'')] :: nat jsobj"
  let ?cfg = "[(''apiKey'', JStr ''secret123''), (''baseUrl'', JStr ''https://api.example.com'')] :: nat jsobj"
  have a: "map_of (app_config (app (\<lambda>n::nat. ''0''))) ''baseUrl'' = Some ?f"
    by (simp add: app_def)
  have b: "cf_default ?f = Some (JStr ''https://api.example.com'')" by simp
  have c: "map_of ?raw ''baseUrl'' = None" by simp
  have d: "resolve_config (app_config (app (\<lambda>n::nat. ''0''))) ?raw = Inr ?cfg"
    by (simp add: app_def resolve_field_def)
  from omitted_field_resolves_to_default [OF a b c d d] have "map_of ?cfg ''baseUrl'' = Some (JStr ''https://api.example.com'')"
    by (rule conjunct1)
  with a c d show ?thesis by (intro conjI)
qed

section \<open>The payload of the example block\<close>

text \<open>
  Claim C7. With a string as the input \<open>message\<close>, and whatever the configuration holds,
  the handler of the example block either throws its TypeError without reaching \<open>emit\<close>,
  or hands to \<open>emit\<close> exactly one payload: an object whose \<open>message\<close> and \<open>originalMessage\<close>
  are both strings. That payload has the shape declared on the block's output, and
  emitting it on the default output is accepted.
\<close>

theorem emitted_payload_conforms:
  assumes "get_prop params ''message'' = JStr m"
  shows "(\<forall>em. onEvent ns em params w = (Failed TypeError, w))
         \<or> (\<exists>pm p. p = JObj [(''message'', JStr pm), (''originalMessage'', JStr m)]
                 \<and> (\<forall>em. onEvent ns em params w = em None p w)
                 \<and> list_all (\<lambda>kd. conforms (out_type (snd kd)) p) exampleBlock_outputs
                 \<and> events_emit exampleBlock_outputs None p w
                     = (Completed, w\<lparr>w_emitted := w_emitted w @ [(''default'', p)]\<rparr>))"
proof (cases "\<exists>k bs. get_prop (w_config w) ''apiKey'' = JStr k
                      \<and> to_string ns (get_prop (w_config w) ''baseUrl'') = Inr bs")
  case True
  then obtain k bs where k: "get_prop (w_config w) ''apiKey'' = JStr k"
    and bs: "to_string ns (get_prop (w_config w) ''baseUrl'') = Inr bs" by blast
  have ms: "to_string ns (get_prop params ''message'') = Inr m"
    by (simp add: assms)
  define pm where "pm = ''Processed: '' @ m @ '' (using '' @ bs @ '' with API key: '' @ take 8 k @ ''...)''"
  define p :: "'a jsval" where "p = JObj [(''message'', JStr pm), (''originalMessage'', JStr m)]"
  have a: "\<forall>em. onEvent ns em params w = em None p w"
    by (simp add: onEvent_string [OF k ms bs] assms p_def pm_def)
  have b: "list_all (\<lambda>kd. conforms (out_type (snd kd)) p) exampleBlock_outputs"
    by (simp add: exampleBlock_outputs_def p_def)
  have c: "events_emit exampleBlock_outputs None p w
             = (Completed, w\<lparr>w_emitted := w_emitted w @ [(''default'', p)]\<rparr>)"
    by (simp add: events_emit_def default_output_def exampleBlock_outputs_def p_def)
  show ?thesis
    by (rule disjI2, rule exI [of _ pm], rule exI [of _ p]) (intro conjI p_def a b c)
next
  case False
  have "\<forall>em. onEvent ns em params w = (Failed TypeError, w)"
  proof (cases "\<exists>k. get_prop (w_config w) ''apiKey'' = JStr k")
    case True
    with False obtain e where "to_string ns (get_prop (w_config w) ''baseUrl'') = Inl e"
      by (cases "to_string ns (get_prop (w_config w) ''baseUrl'')") auto
    then have "\<And>em. onEvent ns em params w = (Failed TypeError, w)"
      by (rule onEvent_unprintable [OF disjI2])
    then show ?thesis by simp
  next
    case False
    then show ?thesis by (simp add: onEvent_not_string)
  qed
  then show ?thesis by (rule disjI1)
qed

theorem emitted_payload_conforms_witness:
  "get_prop ([(''message'', JStr ''hi'')] :: nat jsobj) ''message'' = JStr ''hi''
   \<and> onEvent (\<lambda>n::nat. ''0'') (events_emit exampleBlock_outputs) [(''message'', JStr ''hi'')]
         \<lparr>w_config = [(''apiKey'', JStr ''secret123''),
                      (''baseUrl'', JStr ''https://api.example.com'')],
          w_emitted = []\<rparr>
       \<noteq> (Failed TypeError,
          \<lparr>w_config = [(''apiKey'', JStr ''secret123''),
                       (''baseUrl'', JStr ''https://api.example.com'')],
           w_emitted = []\<rparr>)
   \<and> (\<exists>pm. onEvent (\<lambda>n::nat. ''0'') (events_emit exampleBlock_outputs) [(''message'', JStr ''hi'')]
               \<lparr>w_config = [(''apiKey'', JStr ''secret123''),
                            (''baseUrl'', JStr ''https://api.example.com'')],
                w_emitted = []\<rparr>
             = (Completed,
                \<lparr>w_config = [(''apiKey'', JStr ''secret123''),
                             (''baseUrl'', JStr ''https://api.example.com'')],
                 w_emitted = [(''default'',
                    JObj [(''message'', JStr pm), (''originalMessage'', JStr ''hi'')])]\<rparr>))"
proof -
  let ?w = "\<lparr>w_config = [(''apiKey'', JStr ''secret123''),
                      (''baseUrl'', JStr ''https://api.example.com'')],
          w_emitted = []\<rparr> :: nat world"
  let ?h = "onEvent (\<lambda>n::nat. ''0'') (events_emit exampleBlock_outputs) [(''message'', JStr ''hi'')] ?w"
  have g: "get_prop ([(''message'', JStr ''hi'')] :: nat jsobj) ''message'' = JStr ''hi''"
    by (simp add: get_prop_def)
  have n: "?h \<noteq> (Failed TypeError, ?w)"
    by (simp add: onEvent_def get_prop_def call_substring_def events_emit_def default_output_def
        exampleBlock_outputs_def)
  from emitted_payload_conforms [OF g, of "\<lambda>n::nat. ''0''" ?w] n
  obtain pm p where p: "p = JObj [(''message'', JStr pm), (''originalMessage'', JStr ''hi'')]"
    and h: "\<forall>em. onEvent (\<lambda>n::nat. ''0'') em [(''message'', JStr ''hi'')] ?w = em None p ?w"
    and e: "events_emit exampleBlock_outputs None p ?w
              = (Completed, ?w\<lparr>w_emitted := w_emitted ?w @ [(''default'', p)]\<rparr>)"
    by blast
  from h e have "?h = (Completed, ?w\<lparr>w_emitted := w_emitted ?w @ [(''default'', p)]\<rparr>)"
    by simp
  with p have "\<exists>pm. ?h = (Completed, \<lparr>w_config = [(''apiKey'', JStr ''secret123''),
                             (''baseUrl'', JStr ''https://api.example.com'')],
                 w_emitted = [(''default'',
                    JObj [(''message'', JStr pm), (''originalMessage'', JStr ''hi'')])]\<rparr>)"
    by simp
  with g n show ?thesis by (intro conjI)
qed

section \<open>The configuration is read-only\<close>

text \<open>
  Claim C9. No invocation changes the resolved configuration: after any sequence of
  events delivered to the app's blocks, after any single dispatch, and after a run of the
  example block's handler with the emit capability of any block, the installation holds
  the configuration it held before.
\<close>

theorem config_is_never_mutated:
  "w_config (snd (deliver (blocks ns) evs w)) = w_config w
   \<and> w_config (snd (dispatch (blocks ns) b i params w)) = w_config w
   \<and> w_config (snd (onEvent ns (events_emit outs) params w)) = w_config w"
proof (intro conjI)
  show "w_config (snd (deliver (blocks ns) evs w)) = w_config w"
  proof (induction evs arbitrary: w)
    case Nil
    show ?case by simp
  next
    case (Cons ev evs)
    obtain b' i' ps where ev: "ev = (b', i', ps)" by (cases ev)
    obtain r w1 where d: "dispatch (blocks ns) b' i' ps w = (r, w1)"
      by (cases "dispatch (blocks ns) b' i' ps w")
    have "w_config w1 = w_config w"
      using dispatch_config [of ns b' i' ps w] d by simp
    moreover have "w_config (snd (deliver (blocks ns) evs w1)) = w_config w1"
      by (rule Cons.IH)
    ultimately show ?case
      using ev d by (cases "deliver (blocks ns) evs w1") simp
  qed
  show "w_config (snd (dispatch (blocks ns) b i params w)) = w_config w"
    by (rule dispatch_config)
  show "w_config (snd (onEvent ns (events_emit outs) params w)) = w_config w"
    by (rule onEvent_config) (rule events_emit_config)
qed

section \<open>The handler and an absent apiKey\<close>




end
